theory Spec2Isabelle
  imports Main
begin

section \<open>JavaScript values and the lodash helpers\<close>

text \<open>
  A property that may be absent: JavaScript tells \<open>undefined\<close> (never set, or an optional
  property left out) from \<open>null\<close> (set to nothing), and the code under study compares with
  \<open>null\<close> by \<open>!==\<close>, which \<open>undefined\<close> passes. Both are kept.
\<close>

datatype 'a js_opt = Undefined | Null | Value 'a

text \<open>
  \<open>cloneDeep\<close> and \<open>isEqual\<close> come from lodash. The state of an object is modelled by
  the value of everything reachable from it, so a deep copy of a state is that state, no
  longer shared with the object it was taken from, and deep equality is equality of states.
\<close>

definition cloneDeep :: "'a \<Rightarrow> 'a" where
  "cloneDeep x = x"

definition isEqual :: "'a \<Rightarrow> 'a \<Rightarrow> bool" where
  "isEqual x y = (x = y)"


section \<open>Metadata\<close>

text \<open>
  \<open>interface MetadataSettings { type: string; values?: string[]; min?: number; max?: number }\<close>.
  Only the presence of the bounds is ever inspected, so the number type is a parameter.
\<close>

record 'n MetadataSettings =
  type :: string
  values' :: "string list js_opt"
  min' :: "'n js_opt"
  max' :: "'n js_opt"

record 'n Metadata =
  id' :: string
  name :: string
  title :: string
  settings :: "'n MetadataSettings"

definition isTerms :: "'n Metadata \<Rightarrow> bool" where
  "isTerms m = (type (settings m) = ''terms'')"

definition isInteger :: "'n Metadata \<Rightarrow> bool" where
  "isInteger m = (type (settings m) = ''integer'')"

definition isFloat :: "'n Metadata \<Rightarrow> bool" where
  "isFloat m = (type (settings m) = ''float'')"

text \<open>
  \<open>this.settings.values?.length > 0\<close>: on an absent list the optional chain gives
  \<open>undefined\<close>, and \<open>undefined > 0\<close> is false.
\<close>

definition hasValues :: "'n Metadata \<Rightarrow> bool" where
  "hasValues m =
     (if isTerms m then
        (case values' (settings m) of Value vs \<Rightarrow> length vs > 0 | _ \<Rightarrow> False)
      else max' (settings m) \<noteq> Null \<and> min' (settings m) \<noteq> Null)"

text \<open>A bound is present when it holds a number: it is neither left out nor null.\<close>

fun isPresent :: "'a js_opt \<Rightarrow> bool" where
  "isPresent (Value v) = True"
| "isPresent Undefined = False"
| "isPresent Null = False"

text \<open>
  The condition in the words of the specification, for comparison with the getter: a
  non-empty value set for the terms type, both bounds present for the numeric types.
\<close>

definition hasValues_spec :: "'n Metadata \<Rightarrow> bool" where
  "hasValues_spec m =
     ((isTerms m \<and> (case values' (settings m) of Value vs \<Rightarrow> vs \<noteq> [] | _ \<Rightarrow> False))
      \<or> ((isInteger m \<or> isFloat m)
          \<and> isPresent (min' (settings m)) \<and> isPresent (max' (settings m))))"


section \<open>Record\<close>

subsection \<open>The classes Record works with\<close>

text \<open>
  Modelled from the spec: the type of a record status (\<open>RecordAnswer.ts\<close> is not among
  the sources). The glossary gives it four values: pending, submitted, discarded, draft.
  At run time a status is the string literal that \<open>Record\<close> compares it with.
\<close>

datatype RecordStatus = Pending | Submitted | Discarded | Draft

fun statusLiteral :: "RecordStatus \<Rightarrow> string" where
  "statusLiteral Pending = ''pending''"
| "statusLiteral Submitted = ''submitted''"
| "statusLiteral Discarded = ''discarded''"
| "statusLiteral Draft = ''draft''"

text \<open>
  An object that is read by \<open>object[key]\<close>. Such a read finds the object's own property
  of that name, whatever it holds (\<open>None\<close> when it holds \<open>undefined\<close>), and where the
  object has no own property of that name it goes on through the prototype chain; it
  gives \<open>undefined\<close> when nothing is found there either. The object carries both: its
  own properties, and what it inherits under each name.
\<close>

record 'v JsObject =
  ownProperties :: "string \<rightharpoonup> 'v option"
  inheritedProperties :: "string \<rightharpoonup> 'v"

definition getProperty :: "'v JsObject \<Rightarrow> string \<Rightarrow> 'v option" where
  "getProperty obj key =
     (case ownProperties obj key of
        Some v \<Rightarrow> v
      | None \<Rightarrow> inheritedProperties obj key)"

text \<open>
  Modelled from the spec: the class \<open>RecordAnswer\<close> (not among the sources), the
  "current answer" of a record, with the three properties \<open>Record\<close> reads:
  \<open>status\<close>, \<open>value\<close> (an object holding one answer value under each question name)
  and \<open>updatedAt\<close>.
\<close>

record 'av RecordAnswer =
  status :: RecordStatus
  value' :: "'av JsObject"
  updatedAt :: "string js_opt"

text \<open>
  Modelled from the spec: the class \<open>Suggestion\<close> (not among the sources), "a pre-filled
  candidate answer attached to a question". \<open>Record\<close> reads only \<open>questionId\<close>.
\<close>

record 'sv Suggestion =
  questionId :: string
  suggestedValue :: "'sv"

text \<open>
  The class \<open>Question\<close> is not among the sources either, and the specification says
  nothing of what its methods do, so they are parameters: \<open>'q\<close> is the state of one
  question object, a property read is a function of that state, and a method that mutates
  the question returns its new state. A method is taken to change nothing but the question
  it is called on, and to return. An absent argument (\<open>undefined\<close>) is \<open>None\<close>.
\<close>

record ('q, 'av, 'sv) QuestionClass =
  question_name :: "'q \<Rightarrow> string"
  question_id :: "'q \<Rightarrow> string"
  isRequired :: "'q \<Rightarrow> bool"
  isAnswered :: "'q \<Rightarrow> bool"
  hasValidValues :: "'q \<Rightarrow> bool"
  complete :: "'av option \<Rightarrow> 'q \<Rightarrow> 'q"
  forceComplete :: "'av option \<Rightarrow> 'q \<Rightarrow> 'q"
  suggests :: "'sv Suggestion option \<Rightarrow> 'q \<Rightarrow> 'q"
  clearAnswer :: "'q \<Rightarrow> 'q"

subsection \<open>The state of a Record\<close>

text \<open>
  \<open>const { original, ...rest } = this\<close> splits a record into its snapshot and all its
  other properties, so the state is a record in two layers: \<open>RecordRest\<close> holds what
  \<open>rest\<close> holds, and \<open>Record\<close> adds \<open>original\<close>, which is \<open>undefined\<close> until
  \<open>initialize\<close> stores a clone of \<open>rest\<close> there. The questions are distinct objects;
  \<open>questions\<close> lists their states.
\<close>

record ('q, 'f, 'av, 'sv) RecordRest =
  id' :: string
  datasetId :: string
  questions :: "'q list"
  fields' :: "'f list"
  answer :: "'av RecordAnswer js_opt"
  suggestions :: "'sv Suggestion list js_opt"
  page :: int
  updatedAt :: "string js_opt"

record ('q, 'f, 'av, 'sv) Record = "('q, 'f, 'av, 'sv) RecordRest" +
  original :: "('q, 'f, 'av, 'sv) RecordRest js_opt"

definition rest :: "('q, 'f, 'av, 'sv) Record \<Rightarrow> ('q, 'f, 'av, 'sv) RecordRest" where
  "rest this = RecordRest.truncate this"

subsection \<open>Status\<close>

definition DEFAULT_STATUS :: string where
  "DEFAULT_STATUS = ''pending''"

text \<open>\<open>this.answer?.status ?? DEFAULT_STATUS\<close>\<close>

definition status :: "('q, 'f, 'av, 'sv) Record \<Rightarrow> string" where
  "status this =
     (case answer this of
        Value a \<Rightarrow> statusLiteral (RecordAnswer.status a)
      | _ \<Rightarrow> DEFAULT_STATUS)"

definition isPending :: "('q, 'f, 'av, 'sv) Record \<Rightarrow> bool" where
  "isPending this = (status this = DEFAULT_STATUS)"

definition isSubmitted :: "('q, 'f, 'av, 'sv) Record \<Rightarrow> bool" where
  "isSubmitted this = (status this = ''submitted'')"

definition isDiscarded :: "('q, 'f, 'av, 'sv) Record \<Rightarrow> bool" where
  "isDiscarded this = (status this = ''discarded'')"

definition isDraft :: "('q, 'f, 'av, 'sv) Record \<Rightarrow> bool" where
  "isDraft this = (status this = ''draft'')"

subsection \<open>Dirty tracking\<close>

text \<open>\<open>!!original && !isEqual(original, rest)\<close>\<close>

definition isModified :: "('q, 'f, 'av, 'sv) Record \<Rightarrow> bool" where
  "isModified this =
     (case original this of
        Value snapshot \<Rightarrow> \<not> isEqual snapshot (rest this)
      | _ \<Rightarrow> False)"

subsection \<open>Completing the questions\<close>

text \<open>\<open>this.answer?.value[question.name]\<close>\<close>

definition answerForQuestion ::
  "('q, 'av, 'sv) QuestionClass \<Rightarrow> ('q, 'f, 'av, 'sv) Record \<Rightarrow> 'q \<Rightarrow> 'av option" where
  "answerForQuestion Q this question =
     (case answer this of
        Value a \<Rightarrow> getProperty (value' a) (question_name Q question)
      | _ \<Rightarrow> None)"

text \<open>\<open>this.suggestions?.find((s) => s.questionId === question.id)\<close>\<close>

definition suggestionFor ::
  "('q, 'av, 'sv) QuestionClass \<Rightarrow> ('q, 'f, 'av, 'sv) Record \<Rightarrow> 'q \<Rightarrow> 'sv Suggestion option" where
  "suggestionFor Q this question =
     (case suggestions this of
        Value ss \<Rightarrow> find (\<lambda>s. questionId s = question_id Q question) ss
      | _ \<Rightarrow> None)"

text \<open>The body of the callback of \<open>completeQuestion\<close>, for one question.\<close>

definition completeOne ::
  "('q, 'av, 'sv) QuestionClass \<Rightarrow> ('q, 'f, 'av, 'sv) Record \<Rightarrow> 'q \<Rightarrow> 'q" where
  "completeOne Q this question =
     (let a = answerForQuestion Q this question in
      if isPending this \<or> isDraft this then
        (let question1 = complete Q a question;
             suggestion = suggestionFor Q this question1
         in suggests Q suggestion question1)
      else forceComplete Q a question)"

text \<open>
  \<open>this.questions.map(...)\<close> visits every question in order and mutates it in place; the
  array it returns holds the same objects and is dropped by both callers.
\<close>

definition completeQuestion ::
  "('q, 'av, 'sv) QuestionClass \<Rightarrow> ('q, 'f, 'av, 'sv) Record \<Rightarrow> ('q, 'f, 'av, 'sv) Record" where
  "completeQuestion Q this = this\<lparr>questions := map (completeOne Q this) (questions this)\<rparr>"

text \<open>
  The re-completion in the words of the specification, for comparison: each question gets
  its answer value, the one the record's answer holds under the question's name, and its
  suggestion, the one of the suggestions list with the question's id.
\<close>

definition answerValue_spec ::
  "('q, 'av, 'sv) QuestionClass \<Rightarrow> ('q, 'f, 'av, 'sv) Record \<Rightarrow> 'q \<Rightarrow> 'av option" where
  "answerValue_spec Q this question =
     (case answer this of
        Value a \<Rightarrow>
          (case ownProperties (value' a) (question_name Q question) of
             Some v \<Rightarrow> v
           | None \<Rightarrow> None)
      | _ \<Rightarrow> None)"

definition rehydrate_spec ::
  "('q, 'av, 'sv) QuestionClass \<Rightarrow> ('q, 'f, 'av, 'sv) Record \<Rightarrow> 'q \<Rightarrow> 'q" where
  "rehydrate_spec Q this question =
     suggests Q
       (case suggestions this of
          Value ss \<Rightarrow> find (\<lambda>s. questionId s = question_id Q question) ss
        | _ \<Rightarrow> None)
       (complete Q (answerValue_spec Q this question) question)"

subsection \<open>Constructor and operations\<close>

text \<open>
  The constructor stores its seven parameters, completes the questions and sets
  \<open>updatedAt = answer?.updatedAt\<close>. It does not call \<open>initialize\<close>.
\<close>

definition newRecord ::
  "('q, 'av, 'sv) QuestionClass \<Rightarrow> string \<Rightarrow> string \<Rightarrow> 'q list \<Rightarrow> 'f list \<Rightarrow>
   'av RecordAnswer js_opt \<Rightarrow> 'sv Suggestion list js_opt \<Rightarrow> int \<Rightarrow> ('q, 'f, 'av, 'sv) Record" where
  "newRecord Q i d qs fs a ss p =
     (let this = \<lparr>id' = i, datasetId = d, questions = qs, fields' = fs, answer = a,
                  suggestions = ss, page = p, updatedAt = Undefined, original = Undefined\<rparr>;
          this = completeQuestion Q this
      in this\<lparr>updatedAt :=
                (case a of Value x \<Rightarrow> RecordAnswer.updatedAt x | _ \<Rightarrow> Undefined)\<rparr>)"

definition initialize ::
  "('q, 'av, 'sv) QuestionClass \<Rightarrow> ('q, 'f, 'av, 'sv) Record \<Rightarrow> ('q, 'f, 'av, 'sv) Record" where
  "initialize Q this =
     (let this = completeQuestion Q this
      in this\<lparr>original := Value (cloneDeep (rest this))\<rparr>)"

definition discard ::
  "('q, 'av, 'sv) QuestionClass \<Rightarrow> 'av RecordAnswer \<Rightarrow> ('q, 'f, 'av, 'sv) Record \<Rightarrow>
   ('q, 'f, 'av, 'sv) Record" where
  "discard Q a this =
     initialize Q (this\<lparr>answer := Value a, updatedAt := RecordAnswer.updatedAt a\<rparr>)"

definition submit ::
  "('q, 'av, 'sv) QuestionClass \<Rightarrow> 'av RecordAnswer \<Rightarrow> ('q, 'f, 'av, 'sv) Record \<Rightarrow>
   ('q, 'f, 'av, 'sv) Record" where
  "submit Q a this =
     initialize Q (this\<lparr>answer := Value a, updatedAt := RecordAnswer.updatedAt a\<rparr>)"

definition clear ::
  "('q, 'av, 'sv) QuestionClass \<Rightarrow> ('q, 'f, 'av, 'sv) Record \<Rightarrow> ('q, 'f, 'av, 'sv) Record" where
  "clear Q this =
     initialize Q (this\<lparr>questions := map (clearAnswer Q) (questions this), answer := Null\<rparr>)"

definition questionAreCompletedCorrectly ::
  "('q, 'av, 'sv) QuestionClass \<Rightarrow> ('q, 'f, 'av, 'sv) Record \<Rightarrow> bool" where
  "questionAreCompletedCorrectly Q this =
     (let requiredQuestionsAreCompletedCorrectly =
            list_all (\<lambda>input. isAnswered Q input)
              (filter (\<lambda>input. isRequired Q input) (questions this));
          optionalQuestionsCompletedAreCorrectlyEntered =
            list_all (\<lambda>input. hasValidValues Q input)
              (filter (\<lambda>input. \<not> isRequired Q input) (questions this))
      in requiredQuestionsAreCompletedCorrectly
         \<and> optionalQuestionsCompletedAreCorrectlyEntered)"

subsection \<open>A change made from outside\<close>

text \<open>
  The user interface edits a question through the question object itself, which the
  record shares: afterwards the \<open>i\<close>-th question of the record has the new state
  \<open>question\<close> and nothing else of the record has changed.
\<close>

definition questionChanged ::
  "nat \<Rightarrow> 'q \<Rightarrow> ('q, 'f, 'av, 'sv) Record \<Rightarrow> ('q, 'f, 'av, 'sv) Record" where
  "questionChanged i question this =
     this\<lparr>questions := (questions this)[i := question]\<rparr>"

subsection \<open>A question that keeps a journal\<close>

text \<open>
  A stand-in for the missing \<open>Question\<close> class at which the theorems below are
  instantiated: its flags are stored, and every method call is appended to a journal.
\<close>

datatype ('av, 'sv) QuestionCall =
  Complete "'av option"
| ForceComplete "'av option"
| Suggests "'sv Suggestion option"
| ClearAnswer

record ('av, 'sv) JournalQuestion =
  jq_name :: string
  jq_id :: string
  jq_required :: bool
  jq_answered :: bool
  jq_valid :: bool
  journal :: "('av, 'sv) QuestionCall list"

definition journalClass :: "(('av, 'sv) JournalQuestion, 'av, 'sv) QuestionClass" where
  "journalClass =
     \<lparr>question_name = jq_name, question_id = jq_id, isRequired = jq_required,
      isAnswered = jq_answered, hasValidValues = jq_valid,
      complete = (\<lambda>a q. q\<lparr>journal := journal q @ [Complete a]\<rparr>),
      forceComplete = (\<lambda>a q. q\<lparr>journal := journal q @ [ForceComplete a]\<rparr>),
      suggests = (\<lambda>s q. q\<lparr>journal := journal q @ [Suggests s]\<rparr>),
      clearAnswer = (\<lambda>q. q\<lparr>journal := journal q @ [ClearAnswer]\<rparr>)\<rparr>"


subsection \<open>Sample data\<close>

text \<open>
  The values of the samples: a string, or one of the built-in functions and objects that
  every plain object inherits from \<open>Object.prototype\<close>.
\<close>

datatype jsValue = Str string | Builtin string

definition objectPrototype :: "string \<rightharpoonup> jsValue" where
  "objectPrototype =
     map_of
       [(''constructor'', Builtin ''Object''),
        (''__proto__'', Builtin ''Object.prototype''),
        (''hasOwnProperty'', Builtin ''Object.prototype.hasOwnProperty''),
        (''isPrototypeOf'', Builtin ''Object.prototype.isPrototypeOf''),
        (''propertyIsEnumerable'', Builtin ''Object.prototype.propertyIsEnumerable''),
        (''toLocaleString'', Builtin ''Object.prototype.toLocaleString''),
        (''toString'', Builtin ''Object.prototype.toString''),
        (''valueOf'', Builtin ''Object.prototype.valueOf''),
        (''__defineGetter__'', Builtin ''Object.prototype.__defineGetter__''),
        (''__defineSetter__'', Builtin ''Object.prototype.__defineSetter__''),
        (''__lookupGetter__'', Builtin ''Object.prototype.__lookupGetter__''),
        (''__lookupSetter__'', Builtin ''Object.prototype.__lookupSetter__'')]"

text \<open>A plain object, as an object literal or parsed JSON gives it.\<close>

definition plainObject :: "(string \<rightharpoonup> jsValue option) \<Rightarrow> jsValue JsObject" where
  "plainObject own = \<lparr>ownProperties = own, inheritedProperties = objectPrototype\<rparr>"

definition sentiment :: "(jsValue, string) JournalQuestion" where
  "sentiment = \<lparr>jq_name = ''sentiment'', jq_id = ''q1'', jq_required = True,
                 jq_answered = False, jq_valid = True, journal = []\<rparr>"

definition comment :: "(jsValue, string) JournalQuestion" where
  "comment = \<lparr>jq_name = ''comment'', jq_id = ''q2'', jq_required = False,
               jq_answered = False, jq_valid = True, journal = []\<rparr>"

definition sentimentSuggestion :: "string Suggestion" where
  "sentimentSuggestion = \<lparr>questionId = ''q1'', suggestedValue = ''positive''\<rparr>"

definition submittedAnswer :: "jsValue RecordAnswer" where
  "submittedAnswer =
     \<lparr>RecordAnswer.status = Submitted,
      value' = plainObject [''sentiment'' \<mapsto> Some (Str ''negative'')],
      RecordAnswer.updatedAt = Value ''2023-10-01''\<rparr>"

definition draftAnswer :: "jsValue RecordAnswer" where
  "draftAnswer =
     \<lparr>RecordAnswer.status = Draft,
      value' = plainObject [''sentiment'' \<mapsto> Some (Str ''neutral'')],
      RecordAnswer.updatedAt = Value ''2023-10-02''\<rparr>"


section \<open>The deploy workflow\<close>

text \<open>
  The workflow "Deploy Argilla environment" is data: the step "Deploy in Cloud Run" hands
  five inputs to the action \<open>google-github-actions/deploy-cloudrun@v1\<close>. An input is text
  with \<open>${{ ... }}\<close> expressions in it, which the runner replaces by their values before
  the action starts; the values are whatever the workflow's inputs and the earlier step
  \<open>credentials\<close> produced, so the context that evaluates an expression is a parameter.
\<close>

datatype piece = Text string | Expr string

type_synonym template = "piece list"

fun renderPiece :: "(string \<Rightarrow> string) \<Rightarrow> piece \<Rightarrow> string" where
  "renderPiece ctx (Text s) = s"
| "renderPiece ctx (Expr e) = ctx e"

definition render :: "(string \<Rightarrow> string) \<Rightarrow> template \<Rightarrow> string" where
  "render ctx t = concat (map (renderPiece ctx) t)"

text \<open>
  The \<open>with:\<close> block of the step. \<open>env_vars\<close> is a block scalar with one
  \<open>KEY=value\<close> assignment on each line; the lines are kept in order, each as the
  pair of its key and its value.
\<close>

record CloudRunInputs =
  service :: template
  image' :: template
  region :: template
  flags :: template
  env_vars :: "(string \<times> template) list"

definition deployInCloudRun :: CloudRunInputs where
  "deployInCloudRun =
     \<lparr>service = [Text ''argilla-quickstart-'', Expr ''inputs.image-version''],
      image' = [Text ''europe-docker.pkg.dev/argilla-ci/'', Expr ''inputs.image-name'',
                Text '':'', Expr ''inputs.image-version''],
      region = [Text ''europe-southwest1''],
      flags = [Text ''--min-instances=1 --max-instances=1 --port=6900 --cpu=2000m --memory=2048Mi --no-cpu-throttling --allow-unauthenticated''],
      env_vars =
        [(''OWNER_PASSWORD'', [Expr ''steps.credentials.outputs.owner'']),
         (''OWNER_API_KEY'', [Expr ''steps.credentials.outputs.owner'']),
         (''ADMIN_PASSWORD'', [Expr ''steps.credentials.outputs.admin'']),
         (''ADMIN_API_KEY'', [Expr ''steps.credentials.outputs.admin'']),
         (''ANNOTATOR_PASSWORD'', [Expr ''steps.credentials.outputs.annotator'']),
         (''ANNOTATOR_API_KEY'', [Expr ''steps.credentials.outputs.annotator'']),
         (''ARGILLA_ENABLE_TELEMETRY'', [Text ''0''])]\<rparr>"

text \<open>The flags the step passes: the evaluated \<open>flags\<close> input, cut at the blanks.\<close>

fun splitBlanks :: "string \<Rightarrow> string list" where
  "splitBlanks [] = [[]]"
| "splitBlanks (c # cs) =
     (if c = CHR '' '' then [] # splitBlanks cs
      else (case splitBlanks cs of [] \<Rightarrow> [[c]] | w # ws \<Rightarrow> (c # w) # ws))"

definition passedFlags :: "(string \<Rightarrow> string) \<Rightarrow> CloudRunInputs \<Rightarrow> string list" where
  "passedFlags ctx step = splitBlanks (render ctx (flags step))"

text \<open>The environment the step asks for: each key with its evaluated value.\<close>

definition injectedEnv :: "(string \<Rightarrow> string) \<Rightarrow> CloudRunInputs \<Rightarrow> (string \<rightharpoonup> string)" where
  "injectedEnv ctx step = map_of (map (\<lambda>(k, t). (k, render ctx t)) (env_vars step))"


section \<open>Theorems about Metadata\<close>

text \<open>
  C1, as stated: \<open>hasValues\<close> is true iff (type is terms and values non-empty) or (type is
  integer or float and both bounds non-null). The getter never looks at \<open>isInteger\<close> or
  \<open>isFloat\<close>: every type other than \<open>terms\<close> takes the bounds branch. The settings type
  is declared \<open>string\<close>, and for the type \<open>date\<close> with both bounds present the getter
  answers true where the stated condition is false.
\<close>

theorem hasValues_spec_counterexample:
  "hasValues \<lparr>Metadata.id' = ''m1'', name = ''created'', title = ''Created'',
       settings = \<lparr>type = ''date'', values' = Undefined,
                    min' = Value (1::int), max' = Value 2\<rparr>\<rparr>
   \<and> \<not> hasValues_spec \<lparr>Metadata.id' = ''m1'', name = ''created'', title = ''Created'',
       settings = \<lparr>type = ''date'', values' = Undefined,
                    min' = Value (1::int), max' = Value 2\<rparr>\<rparr>"
  by (simp add: hasValues_def hasValues_spec_def isTerms_def isInteger_def isFloat_def)

text \<open>
  C1, amended: when the type is terms, \<open>hasValues\<close> is true iff the values list is
  present and non-empty. When the type is anything other than terms, \<open>hasValues\<close> is
  true if both bounds are present and false if either bound is null. So for the types
  terms, integer and float, wherever a bound is null or both bounds are present,
  \<open>hasValues\<close> is the condition the specification states.
\<close>

theorem hasValues_iff:
  "(isTerms m \<longrightarrow>
      hasValues m = (case values' (settings m) of Value vs \<Rightarrow> vs \<noteq> [] | _ \<Rightarrow> False))
   \<and> (\<not> isTerms m \<and> isPresent (min' (settings m)) \<and> isPresent (max' (settings m))
        \<longrightarrow> hasValues m)
   \<and> (\<not> isTerms m \<and> (min' (settings m) = Null \<or> max' (settings m) = Null)
        \<longrightarrow> \<not> hasValues m)
   \<and> (isTerms m
        \<or> (isInteger m \<or> isFloat m)
            \<and> (min' (settings m) = Null \<or> max' (settings m) = Null
                \<or> isPresent (min' (settings m)) \<and> isPresent (max' (settings m)))
        \<longrightarrow> hasValues m = hasValues_spec m)"
proof -
  have present: "isPresent v \<Longrightarrow> v \<noteq> Null" for v :: "'a js_opt"
    by (cases v) simp_all
  have absent: "\<not> isPresent Null"
    by simp
  show ?thesis
    by (auto simp: hasValues_def hasValues_spec_def isTerms_def isInteger_def isFloat_def
        present absent split: js_opt.splits)
qed

theorem hasValues_iff_witness:
  "hasValues \<lparr>Metadata.id' = ''m3'', name = ''topic'', title = ''Topic'',
       settings = \<lparr>type = ''terms'', values' = Value [''news'', ''sport''],
                    min' = Undefined, max' = (Undefined :: int js_opt)\<rparr>\<rparr>
   \<and> hasValues \<lparr>Metadata.id' = ''m4'', name = ''length'', title = ''Length'',
       settings = \<lparr>type = ''integer'', values' = Undefined,
                    min' = Value (0::int), max' = Value 280\<rparr>\<rparr>
   \<and> hasValues_spec \<lparr>Metadata.id' = ''m4'', name = ''length'', title = ''Length'',
       settings = \<lparr>type = ''integer'', values' = Undefined,
                    min' = Value (0::int), max' = Value 280\<rparr>\<rparr>
   \<and> \<not> hasValues \<lparr>Metadata.id' = ''m2'', name = ''score'', title = ''Score'',
       settings = \<lparr>type = ''float'', values' = Undefined,
                    min' = Value (0::int), max' = Null\<rparr>\<rparr>
   \<and> \<not> hasValues_spec \<lparr>Metadata.id' = ''m2'', name = ''score'', title = ''Score'',
       settings = \<lparr>type = ''float'', values' = Undefined,
                    min' = Value (0::int), max' = Null\<rparr>\<rparr>"
proof -
  let ?topic = "\<lparr>Metadata.id' = ''m3'', name = ''topic'', title = ''Topic'',
       settings = \<lparr>type = ''terms'', values' = Value [''news'', ''sport''],
                    min' = Undefined, max' = (Undefined :: int js_opt)\<rparr>\<rparr>"
  let ?length = "\<lparr>Metadata.id' = ''m4'', name = ''length'', title = ''Length'',
       settings = \<lparr>type = ''integer'', values' = Undefined,
                    min' = Value (0::int), max' = Value 280\<rparr>\<rparr>"
  let ?score = "\<lparr>Metadata.id' = ''m2'', name = ''score'', title = ''Score'',
       settings = \<lparr>type = ''float'', values' = Undefined,
                    min' = Value (0::int), max' = Null\<rparr>\<rparr>"
  have "hasValues ?topic"
    using hasValues_iff [of ?topic] by (auto simp: isTerms_def)
  moreover have "hasValues ?length \<and> hasValues_spec ?length"
    using hasValues_iff [of ?length] by (auto simp: isTerms_def isInteger_def)
  moreover have "\<not> hasValues ?score \<and> \<not> hasValues_spec ?score"
    using hasValues_iff [of ?score] by (auto simp: isTerms_def isInteger_def isFloat_def)
  ultimately show ?thesis by blast
qed

text \<open>
  The bounds branch compares with \<open>null\<close> only. A bound that is left out is
  \<open>undefined\<close>, not \<open>null\<close>, so an integer metadata with no bounds at all has values
  according to the getter; the theorem above says nothing of this case.
\<close>

lemma hasValues_bounds_left_out:
  "hasValues \<lparr>Metadata.id' = ''m5'', name = ''length'', title = ''Length'',
       settings = \<lparr>type = ''integer'', values' = Undefined,
                    min' = (Undefined :: int js_opt), max' = Undefined\<rparr>\<rparr>
   \<and> \<not> hasValues_spec \<lparr>Metadata.id' = ''m5'', name = ''length'', title = ''Length'',
       settings = \<lparr>type = ''integer'', values' = Undefined,
                    min' = (Undefined :: int js_opt), max' = Undefined\<rparr>\<rparr>"
  by (simp add: hasValues_def hasValues_spec_def isTerms_def isInteger_def isFloat_def)


section \<open>Theorems about Record\<close>

subsection \<open>Auxiliary facts\<close>

lemma rest_update_original: "rest (r\<lparr>original := x\<rparr>) = rest r"
  by (simp add: rest_def RecordRest.truncate_def)

lemma questions_rest: "questions (rest r) = questions r"
  by (simp add: rest_def RecordRest.truncate_def)

lemma original_initialize: "original (initialize Q r) = Value (rest (initialize Q r))"
  by (simp add: initialize_def Let_def cloneDeep_def rest_update_original)

lemma original_initialize_clone:
  "original (initialize Q r) = Value (cloneDeep (rest (initialize Q r)))"
  by (simp add: original_initialize cloneDeep_def)

lemma isModified_initialize: "isModified (initialize Q r) = False"
  by (simp add: isModified_def original_initialize isEqual_def)

lemma isModified_newRecord: "isModified (newRecord Q i d qs fs a ss p) = False"
  by (simp add: isModified_def newRecord_def Let_def completeQuestion_def)

lemma initialize_frame:
  "id' (initialize Q r) = id' r"
  "datasetId (initialize Q r) = datasetId r"
  "fields' (initialize Q r) = fields' r"
  "page (initialize Q r) = page r"
  "answer (initialize Q r) = answer r"
  "RecordRest.updatedAt (initialize Q r) = RecordRest.updatedAt r"
  "suggestions (initialize Q r) = suggestions r"
  by (simp_all add: initialize_def Let_def completeQuestion_def)

lemma questions_initialize:
  "questions (initialize Q r) = map (completeOne Q r) (questions r)"
  by (simp add: initialize_def Let_def completeQuestion_def)

lemma newRecord_frame:
  "answer (newRecord Q i d qs fs a ss p) = a"
  "suggestions (newRecord Q i d qs fs a ss p) = ss"
  by (simp_all add: newRecord_def Let_def completeQuestion_def)

text \<open>The callback reads nothing of the record but its answer and its suggestions.\<close>

lemma completeOne_cong:
  "answer r = answer r' \<Longrightarrow> suggestions r = suggestions r' \<Longrightarrow>
   completeOne Q r = completeOne Q r'"
  by (rule ext) (simp add: completeOne_def answerForQuestion_def suggestionFor_def
      isPending_def isDraft_def status_def Let_def)

lemma questions_newRecord:
  "questions (newRecord Q i d qs fs a ss p) =
     map (completeOne Q (newRecord Q i d qs fs a ss p)) qs"
proof -
  let ?this = "\<lparr>id' = i, datasetId = d, questions = qs, fields' = fs, answer = a,
     suggestions = ss, page = p, updatedAt = Undefined, original = Undefined\<rparr>"
  have "completeOne Q ?this = completeOne Q (newRecord Q i d qs fs a ss p)"
    by (rule completeOne_cong) (simp_all add: newRecord_frame)
  then show ?thesis by (simp add: newRecord_def Let_def completeQuestion_def)
qed

lemma status_cases:
  "status r = ''pending'' \<or> status r = ''submitted''
   \<or> status r = ''discarded'' \<or> status r = ''draft''"
proof (cases "answer r")
  case (Value a)
  then show ?thesis by (cases "RecordAnswer.status a") (simp_all add: status_def)
qed (simp_all add: status_def DEFAULT_STATUS_def)

lemma statusLiteral_pending [simp]: "statusLiteral s = ''pending'' \<longleftrightarrow> s = Pending"
  by (cases s) simp_all

lemma statusLiteral_draft [simp]: "statusLiteral s = ''draft'' \<longleftrightarrow> s = Draft"
  by (cases s) simp_all

text \<open>
  The callback for one question, with both lookups written out, for a question whose
  name is an own property of the answer's value object or is not inherited by it.
\<close>

lemma completeOne_own:
  assumes "case answer r of
             Value x \<Rightarrow> ownProperties (value' x) (question_name Q q) \<noteq> None
                        \<or> inheritedProperties (value' x) (question_name Q q) = None
           | _ \<Rightarrow> True"
  shows "completeOne Q r q =
     (let v = (case answer r of
                 Value x \<Rightarrow> (case ownProperties (value' x) (question_name Q q) of
                               Some w \<Rightarrow> w | None \<Rightarrow> None)
               | _ \<Rightarrow> None)
      in if (case answer r of
               Value x \<Rightarrow> RecordAnswer.status x = Pending \<or> RecordAnswer.status x = Draft
             | _ \<Rightarrow> True)
         then suggests Q
                (case suggestions r of
                   Value l \<Rightarrow> find (\<lambda>s. questionId s = question_id Q (complete Q v q)) l
                 | _ \<Rightarrow> None)
                (complete Q v q)
         else forceComplete Q v q)"
proof (cases "answer r")
  case (Value x)
  with assms have "getProperty (value' x) (question_name Q q) =
      (case ownProperties (value' x) (question_name Q q) of Some w \<Rightarrow> w | None \<Rightarrow> None)"
    by (auto simp: getProperty_def split: option.splits)
  with Value show ?thesis
    by (simp add: completeOne_def answerForQuestion_def suggestionFor_def isPending_def
        isDraft_def status_def DEFAULT_STATUS_def Let_def)
qed (simp_all add: completeOne_def answerForQuestion_def suggestionFor_def isPending_def
    isDraft_def status_def DEFAULT_STATUS_def Let_def)

text \<open>
  Once the snapshot is the current state, giving one question a different state makes
  the record differ from its snapshot.
\<close>

lemma isModified_questionChanged:
  assumes "original r = Value (rest r)"
    and "i < length (questions r)"
    and "q' \<noteq> questions r ! i"
  shows "isModified (questionChanged i q' r)"
proof -
  have "questions (rest (questionChanged i q' r)) ! i = q'"
    using assms(2) by (simp add: questions_rest questionChanged_def)
  with assms(3) have "questions (rest (questionChanged i q' r)) \<noteq> questions (rest r)"
    by (metis questions_rest)
  then have "rest (questionChanged i q' r) \<noteq> rest r" by metis
  moreover have "original (questionChanged i q' r) = Value (rest r)"
    using assms(1) by (simp add: questionChanged_def)
  ultimately show ?thesis by (auto simp: isModified_def isEqual_def)
qed

subsection \<open>Dirty tracking\<close>

text \<open>
  C2: \<open>isModified\<close> is false immediately after construction, and immediately after
  \<open>submit(answer)\<close>, \<open>discard(answer)\<close> or \<open>clear()\<close> returns. After construction
  there is no snapshot yet; each of the three operations ends in \<open>initialize\<close>, which
  stores a clone of the state it leaves.
\<close>

theorem isModified_false_after_operations:
  "\<not> isModified (newRecord Q i d qs fs a ss p)
   \<and> \<not> isModified (submit Q a' r)
   \<and> \<not> isModified (discard Q a' r)
   \<and> \<not> isModified (clear Q r)"
  by (simp add: isModified_initialize isModified_newRecord submit_def discard_def clear_def)

text \<open>
  C3, as stated: after any question's answer changes \<open>isModified\<close> is true, in particular
  on a record on which only the constructor has run. The constructor takes no snapshot,
  and \<open>isModified\<close> answers false as long as there is none: below, the one question of a
  freshly constructed record becomes answered, and \<open>isModified\<close> is still false.
\<close>

theorem isModified_constructor_only_counterexample:
  "questions (questionChanged 0
       (sentiment\<lparr>jq_answered := True, journal := [Complete None, Suggests None]\<rparr>)
       (newRecord journalClass ''r1'' ''d1'' [sentiment] ([]::string list)
          Undefined Undefined 1))
     \<noteq> questions (newRecord journalClass ''r1'' ''d1'' [sentiment] ([]::string list)
          Undefined Undefined 1)
   \<and> \<not> isModified (questionChanged 0
       (sentiment\<lparr>jq_answered := True, journal := [Complete None, Suggests None]\<rparr>)
       (newRecord journalClass ''r1'' ''d1'' [sentiment] ([]::string list)
          Undefined Undefined 1))"
  by (simp add: isModified_def questionChanged_def newRecord_def Let_def completeQuestion_def
      completeOne_def journalClass_def sentiment_def)

text \<open>
  C3, amended: on a record on which \<open>initialize()\<close> has run (directly, or as the last
  step of \<open>submit\<close>, \<open>discard\<close> or \<open>clear\<close>), once a question's state differs from what
  it was at that call, with no \<open>submit\<close>, \<open>discard\<close>, \<open>clear\<close> or \<open>initialize\<close> in
  between, \<open>isModified\<close> is true. On a record on which only the constructor has run,
  \<open>isModified\<close> stays false whatever a question changes to.
\<close>

theorem isModified_after_change:
  "(i < length (questions (initialize Q r)) \<and> q' \<noteq> questions (initialize Q r) ! i
      \<longrightarrow> isModified (questionChanged i q' (initialize Q r)))
   \<and> (i < length (questions (submit Q a' r)) \<and> q' \<noteq> questions (submit Q a' r) ! i
      \<longrightarrow> isModified (questionChanged i q' (submit Q a' r)))
   \<and> (i < length (questions (discard Q a' r)) \<and> q' \<noteq> questions (discard Q a' r) ! i
      \<longrightarrow> isModified (questionChanged i q' (discard Q a' r)))
   \<and> (i < length (questions (clear Q r)) \<and> q' \<noteq> questions (clear Q r) ! i
      \<longrightarrow> isModified (questionChanged i q' (clear Q r)))
   \<and> \<not> isModified (questionChanged i q' (newRecord Q k d qs fs a ss p))"
proof -
  have "\<not> isModified (questionChanged i q' (newRecord Q k d qs fs a ss p))"
    by (simp add: isModified_def questionChanged_def newRecord_def Let_def
        completeQuestion_def)
  then show ?thesis
    by (simp add: isModified_questionChanged original_initialize submit_def discard_def
        clear_def)
qed

theorem isModified_after_change_witness:
  "0 < length (questions (submit journalClass submittedAnswer
         (newRecord journalClass ''r1'' ''d1'' [sentiment] ([]::string list)
            Undefined (Value [sentimentSuggestion]) 1)))
   \<and> sentiment\<lparr>jq_answered := True\<rparr>
       \<noteq> questions (submit journalClass submittedAnswer
         (newRecord journalClass ''r1'' ''d1'' [sentiment] ([]::string list)
            Undefined (Value [sentimentSuggestion]) 1)) ! 0
   \<and> isModified (questionChanged 0 (sentiment\<lparr>jq_answered := True\<rparr>)
       (submit journalClass submittedAnswer
         (newRecord journalClass ''r1'' ''d1'' [sentiment] ([]::string list)
            Undefined (Value [sentimentSuggestion]) 1)))"
proof -
  let ?r = "newRecord journalClass ''r1'' ''d1'' [sentiment] ([]::string list)
              Undefined (Value [sentimentSuggestion]) 1"
  let ?q = "sentiment\<lparr>jq_answered := True\<rparr>"
  have len: "0 < length (questions (submit journalClass submittedAnswer ?r))"
    by (simp add: submit_def questions_initialize questions_newRecord)
  have ne: "?q \<noteq> questions (submit journalClass submittedAnswer ?r) ! 0"
    by (simp add: submit_def questions_initialize questions_newRecord completeOne_def
        Let_def journalClass_def sentiment_def)
  from len ne
    isModified_after_change [where i = 0 and Q = journalClass and r = "?r" and q' = "?q"
      and a' = submittedAnswer, THEN conjunct2, THEN conjunct1]
  show ?thesis by blast
qed

subsection \<open>Status\<close>

text \<open>
  C4: a record whose answer is \<open>null\<close> or \<open>undefined\<close> has status "pending", and
  \<open>isPending\<close> is true.
\<close>

theorem status_pending_without_answer:
  "answer r = Null \<or> answer r = Undefined \<Longrightarrow> status r = ''pending'' \<and> isPending r"
  by (auto simp: status_def isPending_def DEFAULT_STATUS_def)

theorem status_pending_without_answer_witness:
  "answer (clear journalClass
      (newRecord journalClass ''r1'' ''d1'' [sentiment] ([]::string list)
         (Value submittedAnswer) Undefined 1)) = Null
   \<and> status (clear journalClass
      (newRecord journalClass ''r1'' ''d1'' [sentiment] ([]::string list)
         (Value submittedAnswer) Undefined 1)) = ''pending''
   \<and> isPending (clear journalClass
      (newRecord journalClass ''r1'' ''d1'' [sentiment] ([]::string list)
         (Value submittedAnswer) Undefined 1))"
  using status_pending_without_answer [of "clear journalClass
      (newRecord journalClass ''r1'' ''d1'' [sentiment] ([]::string list)
         (Value submittedAnswer) Undefined 1)"]
  by (simp add: clear_def initialize_frame)

text \<open>
  C5: the status of a record is one of "pending", "submitted", "discarded", "draft",
  read off the current answer alone (the answer's status when there is an answer,
  "pending" otherwise), and exactly one of \<open>isPending\<close>, \<open>isSubmitted\<close>,
  \<open>isDiscarded\<close>, \<open>isDraft\<close> is true.
\<close>

theorem status_exactly_one:
  "status r = (case answer r of Value a \<Rightarrow> statusLiteral (RecordAnswer.status a)
                               | _ \<Rightarrow> ''pending'')
   \<and> status r \<in> {''pending'', ''submitted'', ''discarded'', ''draft''}
   \<and> length (filter (\<lambda>b. b) [isPending r, isSubmitted r, isDiscarded r, isDraft r]) = 1"
  using status_cases [of r]
  by (auto simp: isPending_def isSubmitted_def isDiscarded_def isDraft_def DEFAULT_STATUS_def
      status_def split: js_opt.splits)

subsection \<open>Operations\<close>

text \<open>
  C6: \<open>submit(a)\<close> and \<open>discard(a)\<close> each set the answer to \<open>a\<close> and \<open>updatedAt\<close>
  to \<open>a.updatedAt\<close>, store as \<open>original\<close> a deep clone of the state they leave (every
  property but \<open>original\<close> itself: the old \<open>id\<close>, \<open>datasetId\<close>, \<open>fields\<close>,
  \<open>suggestions\<close> and \<open>page\<close>, the new answer and \<open>updatedAt\<close>, and the questions as
  they are on return), and leave \<open>id\<close>, \<open>datasetId\<close>, \<open>fields\<close> and \<open>page\<close> as they
  were.
\<close>

theorem submit_discard_effect:
  "answer (submit Q a r) = Value a
   \<and> RecordRest.updatedAt (submit Q a r) = RecordAnswer.updatedAt a
   \<and> original (submit Q a r) =
       Value \<lparr>id' = id' r, datasetId = datasetId r, questions = questions (submit Q a r),
              fields' = fields' r, answer = Value a, suggestions = suggestions r,
              page = page r, updatedAt = RecordAnswer.updatedAt a\<rparr>
   \<and> id' (submit Q a r) = id' r
   \<and> datasetId (submit Q a r) = datasetId r
   \<and> fields' (submit Q a r) = fields' r
   \<and> page (submit Q a r) = page r
   \<and> answer (discard Q a r) = Value a
   \<and> RecordRest.updatedAt (discard Q a r) = RecordAnswer.updatedAt a
   \<and> original (discard Q a r) =
       Value \<lparr>id' = id' r, datasetId = datasetId r, questions = questions (discard Q a r),
              fields' = fields' r, answer = Value a, suggestions = suggestions r,
              page = page r, updatedAt = RecordAnswer.updatedAt a\<rparr>
   \<and> id' (discard Q a r) = id' r
   \<and> datasetId (discard Q a r) = datasetId r
   \<and> fields' (discard Q a r) = fields' r
   \<and> page (discard Q a r) = page r"
proof -
  have snapshot: "original (initialize Q s) =
      Value \<lparr>id' = id' s, datasetId = datasetId s, questions = questions (initialize Q s),
             fields' = fields' s, answer = answer s, suggestions = suggestions s,
             page = page s, updatedAt = RecordRest.updatedAt s\<rparr>"
    for s
    by (simp add: initialize_def Let_def completeQuestion_def cloneDeep_def rest_def
        RecordRest.truncate_def)
  show ?thesis
    by (simp add: submit_def discard_def initialize_frame snapshot)
qed

text \<open>
  The snapshot a \<open>submit\<close> leaves on a pending record with one question: the submitted
  answer and its date, and the question as \<open>forceComplete\<close> left it.
\<close>

theorem submit_discard_effect_witness:
  "original (submit journalClass submittedAnswer
      (newRecord journalClass ''r1'' ''d1'' [sentiment] [''text''] Undefined
         (Value [sentimentSuggestion]) 1))
   = Value \<lparr>id' = ''r1'', datasetId = ''d1'',
       questions = [sentiment\<lparr>journal := [Complete None, Suggests (Some sentimentSuggestion),
                                           ForceComplete (Some (Str ''negative''))]\<rparr>],
       fields' = [''text''], answer = Value submittedAnswer,
       suggestions = Value [sentimentSuggestion], page = 1,
       updatedAt = Value ''2023-10-01''\<rparr>"
  using submit_discard_effect [of journalClass submittedAnswer
      "newRecord journalClass ''r1'' ''d1'' [sentiment] [''text''] Undefined
         (Value [sentimentSuggestion]) 1"]
  by (simp add: submit_def questions_initialize completeOne_def answerForQuestion_def
      suggestionFor_def getProperty_def isPending_def isDraft_def status_def
      DEFAULT_STATUS_def Let_def newRecord_def completeQuestion_def journalClass_def
      sentiment_def submittedAnswer_def sentimentSuggestion_def plainObject_def)

text \<open>
  C7, as stated: on every construction and every \<open>initialize()\<close>, each question is
  completed with its answer value (found by question name) and with its suggestion (found
  by question id). The callback does so only while the record is pending or a draft. A
  record constructed with a submitted answer takes the other branch: its question gets
  one \<open>forceComplete\<close> call and no suggestion, although one is there for it.
\<close>

theorem completeQuestion_spec_counterexample:
  "questions (newRecord journalClass ''r1'' ''d1'' [sentiment] ([]::string list)
       (Value submittedAnswer) (Value [sentimentSuggestion]) 1)
     = [sentiment\<lparr>journal := [ForceComplete (Some (Str ''negative''))]\<rparr>]
   \<and> map (rehydrate_spec journalClass
        (newRecord journalClass ''r1'' ''d1'' [sentiment] ([]::string list)
           (Value submittedAnswer) (Value [sentimentSuggestion]) 1)) [sentiment]
     = [sentiment\<lparr>journal := [Complete (Some (Str ''negative'')),
                                 Suggests (Some sentimentSuggestion)]\<rparr>]
   \<and> questions (newRecord journalClass ''r1'' ''d1'' [sentiment] ([]::string list)
       (Value submittedAnswer) (Value [sentimentSuggestion]) 1)
     \<noteq> map (rehydrate_spec journalClass
        (newRecord journalClass ''r1'' ''d1'' [sentiment] ([]::string list)
           (Value submittedAnswer) (Value [sentimentSuggestion]) 1)) [sentiment]"
  by (simp add: newRecord_def Let_def completeQuestion_def completeOne_def rehydrate_spec_def
      answerValue_spec_def answerForQuestion_def getProperty_def suggestionFor_def
      isPending_def isDraft_def status_def DEFAULT_STATUS_def journalClass_def sentiment_def
      submittedAnswer_def sentimentSuggestion_def plainObject_def)

text \<open>
  C7, amended: on every construction and every \<open>initialize()\<close>, the questions list keeps
  its length and order, and each question whose name is a property of the answer's value
  object itself, or is not inherited by that object, is completed with the value held
  under its name there (\<open>undefined\<close> when the record has no answer or the object holds
  nothing under that name). While the record is pending or a draft (its answer absent, or
  of status pending or draft) this is done by \<open>complete\<close>, followed by \<open>suggests\<close> with
  the first suggestion of the suggestions list whose \<open>questionId\<close> is the question's id
  (\<open>undefined\<close> when the list is absent or has none); while it is submitted or
  discarded it is done by \<open>forceComplete\<close>, and no suggestion is handed over.
\<close>

theorem completeQuestion_questions:
  "length (questions (newRecord Q i d qs fs a ss p)) = length qs
   \<and> (\<forall>n. n < length qs
          \<and> (case a of
                Value x \<Rightarrow> ownProperties (value' x) (question_name Q (qs ! n)) \<noteq> None
                           \<or> inheritedProperties (value' x) (question_name Q (qs ! n)) = None
              | _ \<Rightarrow> True)
        \<longrightarrow> questions (newRecord Q i d qs fs a ss p) ! n =
            (let v = (case a of
                        Value x \<Rightarrow>
                          (case ownProperties (value' x) (question_name Q (qs ! n)) of
                             Some w \<Rightarrow> w | None \<Rightarrow> None)
                      | _ \<Rightarrow> None)
             in if (case a of
                      Value x \<Rightarrow> RecordAnswer.status x = Pending
                                 \<or> RecordAnswer.status x = Draft
                    | _ \<Rightarrow> True)
                then suggests Q
                       (case ss of
                          Value l \<Rightarrow>
                            find (\<lambda>s. questionId s = question_id Q (complete Q v (qs ! n))) l
                        | _ \<Rightarrow> None)
                       (complete Q v (qs ! n))
                else forceComplete Q v (qs ! n)))
   \<and> length (questions (initialize Q r)) = length (questions r)
   \<and> (\<forall>n. n < length (questions r)
          \<and> (case answer r of
                Value x \<Rightarrow> ownProperties (value' x) (question_name Q (questions r ! n)) \<noteq> None
                           \<or> inheritedProperties (value' x) (question_name Q (questions r ! n))
                              = None
              | _ \<Rightarrow> True)
        \<longrightarrow> questions (initialize Q r) ! n =
            (let v = (case answer r of
                        Value x \<Rightarrow>
                          (case ownProperties (value' x) (question_name Q (questions r ! n)) of
                             Some w \<Rightarrow> w | None \<Rightarrow> None)
                      | _ \<Rightarrow> None)
             in if (case answer r of
                      Value x \<Rightarrow> RecordAnswer.status x = Pending
                                 \<or> RecordAnswer.status x = Draft
                    | _ \<Rightarrow> True)
                then suggests Q
                       (case suggestions r of
                          Value l \<Rightarrow>
                            find (\<lambda>s. questionId s
                                       = question_id Q (complete Q v (questions r ! n))) l
                        | _ \<Rightarrow> None)
                       (complete Q v (questions r ! n))
                else forceComplete Q v (questions r ! n)))"
proof (intro conjI allI impI; (elim conjE)?)
  show "length (questions (newRecord Q i d qs fs a ss p)) = length qs"
    by (simp add: questions_newRecord)
  show "length (questions (initialize Q r)) = length (questions r)"
    by (simp add: questions_initialize)
next
  fix n
  let ?new = "newRecord Q i d qs fs a ss p"
  assume n: "n < length qs"
    and own: "case a of
        Value x \<Rightarrow> ownProperties (value' x) (question_name Q (qs ! n)) \<noteq> None
                   \<or> inheritedProperties (value' x) (question_name Q (qs ! n)) = None
      | _ \<Rightarrow> True"
  from n have "questions ?new ! n = completeOne Q ?new (qs ! n)"
    by (simp add: questions_newRecord)
  with own completeOne_own [where r = ?new and Q = Q and q = "qs ! n"]
  show "questions ?new ! n =
            (let v = (case a of
                        Value x \<Rightarrow>
                          (case ownProperties (value' x) (question_name Q (qs ! n)) of
                             Some w \<Rightarrow> w | None \<Rightarrow> None)
                      | _ \<Rightarrow> None)
             in if (case a of
                      Value x \<Rightarrow> RecordAnswer.status x = Pending
                                 \<or> RecordAnswer.status x = Draft
                    | _ \<Rightarrow> True)
                then suggests Q
                       (case ss of
                          Value l \<Rightarrow>
                            find (\<lambda>s. questionId s = question_id Q (complete Q v (qs ! n))) l
                        | _ \<Rightarrow> None)
                       (complete Q v (qs ! n))
                else forceComplete Q v (qs ! n))"
    by (simp add: newRecord_frame Let_def)
next
  fix n
  assume n: "n < length (questions r)"
    and own: "case answer r of
        Value x \<Rightarrow> ownProperties (value' x) (question_name Q (questions r ! n)) \<noteq> None
                   \<or> inheritedProperties (value' x) (question_name Q (questions r ! n))
                      = None
      | _ \<Rightarrow> True"
  from n have "questions (initialize Q r) ! n = completeOne Q r (questions r ! n)"
    by (simp add: questions_initialize)
  with own completeOne_own [where r = r and Q = Q and q = "questions r ! n"]
  show "questions (initialize Q r) ! n =
            (let v = (case answer r of
                        Value x \<Rightarrow>
                          (case ownProperties (value' x) (question_name Q (questions r ! n)) of
                             Some w \<Rightarrow> w | None \<Rightarrow> None)
                      | _ \<Rightarrow> None)
             in if (case answer r of
                      Value x \<Rightarrow> RecordAnswer.status x = Pending
                                 \<or> RecordAnswer.status x = Draft
                    | _ \<Rightarrow> True)
                then suggests Q
                       (case suggestions r of
                          Value l \<Rightarrow>
                            find (\<lambda>s. questionId s
                                       = question_id Q (complete Q v (questions r ! n))) l
                        | _ \<Rightarrow> None)
                       (complete Q v (questions r ! n))
                else forceComplete Q v (questions r ! n))"
    by simp
qed

text \<open>
  A draft record with two questions and a suggestion for the first: \<open>sentiment\<close> has an
  answer value and a suggestion, \<open>comment\<close> has neither.
\<close>

theorem completeQuestion_questions_witness:
  "questions (newRecord journalClass ''r1'' ''d1'' [sentiment, comment] ([]::string list)
       (Value draftAnswer) (Value [sentimentSuggestion]) 1) ! 0
     = sentiment\<lparr>journal := [Complete (Some (Str ''neutral'')),
                                Suggests (Some sentimentSuggestion)]\<rparr>
   \<and> questions (newRecord journalClass ''r1'' ''d1'' [sentiment, comment] ([]::string list)
       (Value draftAnswer) (Value [sentimentSuggestion]) 1) ! 1
     = comment\<lparr>journal := [Complete None, Suggests None]\<rparr>"
proof -
  note facts = completeQuestion_questions [where Q = journalClass and i = "''r1''"
      and d = "''d1''" and qs = "[sentiment, comment]" and fs = "[]::string list"
      and a = "Value draftAnswer" and ss = "Value [sentimentSuggestion]" and p = 1,
      THEN conjunct2, THEN conjunct1]
  have "questions (newRecord journalClass ''r1'' ''d1'' [sentiment, comment] ([]::string list)
       (Value draftAnswer) (Value [sentimentSuggestion]) 1) ! 0
     = sentiment\<lparr>journal := [Complete (Some (Str ''neutral'')),
                                Suggests (Some sentimentSuggestion)]\<rparr>"
    using facts [THEN spec, of 0]
    by (simp add: Let_def journalClass_def sentiment_def comment_def draftAnswer_def
        sentimentSuggestion_def plainObject_def)
  moreover have "questions (newRecord journalClass ''r1'' ''d1'' [sentiment, comment]
       ([]::string list) (Value draftAnswer) (Value [sentimentSuggestion]) 1) ! 1
     = comment\<lparr>journal := [Complete None, Suggests None]\<rparr>"
    using facts [THEN spec, of 1]
    by (simp add: Let_def journalClass_def sentiment_def comment_def draftAnswer_def
        sentimentSuggestion_def plainObject_def objectPrototype_def)
  ultimately show ?thesis by blast
qed

text \<open>
  The read \<open>value[question.name]\<close> goes through the prototype chain: for a question
  named \<open>constructor\<close> and a plain value object without such an entry it finds the
  function \<open>Object\<close>. The theorem above says nothing of such a question.
\<close>

lemma answerForQuestion_inherited:
  "answerForQuestion journalClass
     (newRecord journalClass ''r1'' ''d1'' [sentiment\<lparr>jq_name := ''constructor''\<rparr>]
        ([]::string list) (Value draftAnswer) (Undefined :: string Suggestion list js_opt) 1)
     (sentiment\<lparr>jq_name := ''constructor''\<rparr>)
   = Some (Builtin ''Object'')"
  by (simp add: answerForQuestion_def newRecord_frame getProperty_def journalClass_def
      sentiment_def draftAnswer_def plainObject_def objectPrototype_def)

text \<open>
  C9: after \<open>clear()\<close> returns, \<open>clearAnswer\<close> has been called on every question, the
  record's answer is \<open>null\<close>, the status is "pending" and \<open>isPending\<close> is true. What
  \<open>clear\<close> leaves of a question is its state after \<open>clearAnswer\<close>, completed again by
  \<open>initialize\<close> for a pending record: with no answer value, and with its suggestion.
\<close>

theorem clear_effect:
  "answer (clear Q r) = Null
   \<and> status (clear Q r) = ''pending''
   \<and> isPending (clear Q r)
   \<and> questions (clear Q r) =
       map (\<lambda>q. suggests Q (suggestionFor Q r (complete Q None (clearAnswer Q q)))
                   (complete Q None (clearAnswer Q q)))
         (questions r)"
  by (simp add: clear_def initialize_frame questions_initialize status_def isPending_def
      DEFAULT_STATUS_def completeOne_def answerForQuestion_def suggestionFor_def isDraft_def
      Let_def)

theorem clear_effect_witness:
  "questions (clear journalClass
      (newRecord journalClass ''r1'' ''d1'' [sentiment] ([]::string list)
         (Value submittedAnswer) (Value [sentimentSuggestion]) 1))
     = [sentiment\<lparr>journal := [ForceComplete (Some (Str ''negative'')), ClearAnswer,
                                 Complete None, Suggests (Some sentimentSuggestion)]\<rparr>]
   \<and> isPending (clear journalClass
      (newRecord journalClass ''r1'' ''d1'' [sentiment] ([]::string list)
         (Value submittedAnswer) (Value [sentimentSuggestion]) 1))"
  using clear_effect [of journalClass
      "newRecord journalClass ''r1'' ''d1'' [sentiment] ([]::string list)
         (Value submittedAnswer) (Value [sentimentSuggestion]) 1"]
  by (simp add: questions_newRecord newRecord_frame completeOne_def Let_def
      answerForQuestion_def getProperty_def suggestionFor_def isPending_def isDraft_def
      status_def DEFAULT_STATUS_def journalClass_def sentiment_def submittedAnswer_def
      sentimentSuggestion_def plainObject_def)

text \<open>
  C10: \<open>questionAreCompletedCorrectly()\<close> is true iff every required question is
  answered and every question that is not required has valid values; with no questions
  at all it is true.
\<close>

theorem questionAreCompletedCorrectly_iff:
  "(questionAreCompletedCorrectly Q r \<longleftrightarrow>
      (\<forall>q \<in> set (questions r). (isRequired Q q \<longrightarrow> isAnswered Q q)
                                \<and> (\<not> isRequired Q q \<longrightarrow> hasValidValues Q q)))
   \<and> (questions r = [] \<longrightarrow> questionAreCompletedCorrectly Q r)"
  by (auto simp: questionAreCompletedCorrectly_def Let_def list_all_iff)

theorem questionAreCompletedCorrectly_iff_witness:
  "questionAreCompletedCorrectly journalClass
       (newRecord journalClass ''r1'' ''d1'' [sentiment\<lparr>jq_answered := True\<rparr>, comment]
          ([]::string list) Undefined Undefined 1)
   \<and> \<not> questionAreCompletedCorrectly journalClass
       (newRecord journalClass ''r1'' ''d1'' [sentiment, comment]
          ([]::string list) Undefined Undefined 1)
   \<and> \<not> questionAreCompletedCorrectly journalClass
       (newRecord journalClass ''r1'' ''d1'' [comment\<lparr>jq_valid := False\<rparr>]
          ([]::string list) Undefined Undefined 1)
   \<and> questionAreCompletedCorrectly journalClass
       (newRecord journalClass ''r1'' ''d1'' [] ([]::string list)
          (Undefined :: string RecordAnswer js_opt)
          (Undefined :: string Suggestion list js_opt) 1)"
proof -
  have "questionAreCompletedCorrectly journalClass
       (newRecord journalClass ''r1'' ''d1'' [sentiment\<lparr>jq_answered := True\<rparr>, comment]
          ([]::string list) Undefined Undefined 1)"
    using questionAreCompletedCorrectly_iff [of journalClass
        "newRecord journalClass ''r1'' ''d1'' [sentiment\<lparr>jq_answered := True\<rparr>, comment]
           ([]::string list) Undefined Undefined 1"]
    by (simp add: questions_newRecord completeOne_def Let_def journalClass_def
        sentiment_def comment_def)
  moreover have "\<not> questionAreCompletedCorrectly journalClass
       (newRecord journalClass ''r1'' ''d1'' [sentiment, comment]
          ([]::string list) Undefined Undefined 1)"
    using questionAreCompletedCorrectly_iff [of journalClass
        "newRecord journalClass ''r1'' ''d1'' [sentiment, comment]
           ([]::string list) Undefined Undefined 1"]
    by (simp add: questions_newRecord completeOne_def Let_def journalClass_def
        sentiment_def comment_def)
  moreover have "\<not> questionAreCompletedCorrectly journalClass
       (newRecord journalClass ''r1'' ''d1'' [comment\<lparr>jq_valid := False\<rparr>]
          ([]::string list) Undefined Undefined 1)"
    using questionAreCompletedCorrectly_iff [of journalClass
        "newRecord journalClass ''r1'' ''d1'' [comment\<lparr>jq_valid := False\<rparr>]
           ([]::string list) Undefined Undefined 1"]
    by (simp add: questions_newRecord completeOne_def Let_def journalClass_def comment_def)
  moreover have "questionAreCompletedCorrectly journalClass
       (newRecord journalClass ''r1'' ''d1'' [] ([]::string list)
          (Undefined :: string RecordAnswer js_opt)
          (Undefined :: string Suggestion list js_opt) 1)"
    using questionAreCompletedCorrectly_iff [of journalClass
        "newRecord journalClass ''r1'' ''d1'' [] ([]::string list)
           (Undefined :: string RecordAnswer js_opt)
           (Undefined :: string Suggestion list js_opt) 1"]
    by (simp add: questions_newRecord)
  ultimately show ?thesis by blast
qed


section \<open>Theorems about the deploy workflow\<close>

text \<open>
  C8: whatever the workflow's inputs and the generated credentials are, the step
  "Deploy in Cloud Run" passes the flags \<open>--min-instances=1\<close>, \<open>--max-instances=1\<close>,
  \<open>--port=6900\<close>, \<open>--cpu=2000m\<close> and \<open>--memory=2048Mi\<close>, and gives the owner, admin
  and annotator credentials each as the \<open>PASSWORD\<close> and as the \<open>API_KEY\<close> variable of
  its role.
\<close>

theorem deploy_flags_and_credentials:
  "''--min-instances=1'' \<in> set (passedFlags ctx deployInCloudRun)
   \<and> ''--max-instances=1'' \<in> set (passedFlags ctx deployInCloudRun)
   \<and> ''--port=6900'' \<in> set (passedFlags ctx deployInCloudRun)
   \<and> ''--cpu=2000m'' \<in> set (passedFlags ctx deployInCloudRun)
   \<and> ''--memory=2048Mi'' \<in> set (passedFlags ctx deployInCloudRun)
   \<and> injectedEnv ctx deployInCloudRun ''OWNER_PASSWORD''
       = Some (ctx ''steps.credentials.outputs.owner'')
   \<and> injectedEnv ctx deployInCloudRun ''OWNER_API_KEY''
       = Some (ctx ''steps.credentials.outputs.owner'')
   \<and> injectedEnv ctx deployInCloudRun ''ADMIN_PASSWORD''
       = Some (ctx ''steps.credentials.outputs.admin'')
   \<and> injectedEnv ctx deployInCloudRun ''ADMIN_API_KEY''
       = Some (ctx ''steps.credentials.outputs.admin'')
   \<and> injectedEnv ctx deployInCloudRun ''ANNOTATOR_PASSWORD''
       = Some (ctx ''steps.credentials.outputs.annotator'')
   \<and> injectedEnv ctx deployInCloudRun ''ANNOTATOR_API_KEY''
       = Some (ctx ''steps.credentials.outputs.annotator'')"
  by (simp add: passedFlags_def injectedEnv_def deployInCloudRun_def render_def)

end
